theory Spec2Isabelle
  imports Complex_Main "HOL-Library.AList" "HOL-Library.Sublist" "HOL-Library.Word"
begin

section \<open>Values, requests and the outside world\<close>

text \<open>
  The scripts are linear sequences of HTTP calls, console output and one sleeping poll
  loop. Their only data are Python strings, JSON values decoded by \<open>response.json()\<close>
  and the dictionaries built for request bodies. A Python dictionary is an association
  list in insertion order: \<open>k in d\<close> is \<open>map_of d k \<noteq> None\<close>, \<open>d.get(k)\<close> is
  \<open>map_of d k\<close>, and \<open>d[k] = v\<close> is \<open>AList.update k v d\<close>, which replaces in place
  or appends, as Python does. Python's \<open>None\<close> is \<open>JNull\<close>. JSON numbers with a
  fraction (Python floats) are not part of the model.
\<close>

datatype json =
    JNull
  | JBool bool
  | JInt int
  | JStr string
  | JArr "json list"
  | JObj "(string \<times> json) list"

type_synonym dict = "(string \<times> json) list"

type_synonym byte = "8 word"

text \<open>
  A \<open>requests.Response\<close>: the three attributes the scripts read. The body of every
  response is taken to be a JSON object (the spec: "responses are JSON objects inspected
  for an identifier field or an error field"), so \<open>response.json()\<close> is \<open>resp_json\<close>.
\<close>

record response =
  status_code :: nat
  resp_text :: string
  resp_json :: dict

text \<open>
  \<open>requests.exceptions.RequestException\<close>: a transport failure (connection refused,
  timeout; \<open>e.response\<close> is \<open>None\<close>) or the \<open>HTTPError\<close> that
  \<open>raise_for_status\<close> raises, which carries the response.
\<close>

datatype request_exception =
    Transport_error string
  | HTTPError response

datatype reply =
    Raises_request request_exception
  | Responds response

text \<open>Other Python exceptions that the modelled paths can raise.\<close>

datatype py_exception = KeyError string | TypeError

text \<open>
  An f-string is kept as its list of pieces: literal text and the values interpolated
  into it, so that \<open>str()\<close> of a value and float formatting stay symbolic.
  \<open>Fixed d q\<close> is the number \<open>q\<close> formatted with \<open>:.df\<close>. The pictographs that
  open most of the source's messages are not part of the literals.
\<close>

datatype piece =
    T string
  | V json
  | N nat
  | Fixed nat rat
  | Exc_request request_exception
  | Exc py_exception

type_synonym fstring = "piece list"

datatype event =
    Http_get fstring dict dict
  | Http_post fstring dict dict
  | Http_put fstring dict dict
  | Sleep nat
  | Print fstring
  | Print_stderr fstring

text \<open>
  \<open>Http_get url params headers\<close>, \<open>Http_post url params data\<close> and
  \<open>Http_put url headers json\<close> are the calls of \<open>requests\<close>; \<open>Sleep n\<close> is
  \<open>time.sleep(n)\<close>. A run is the list of its events in order. The outside world
  (the three remote services) is any function from the history, ending with the request
  being made, to the reply that request gets.
\<close>

type_synonym trace = "event list"

type_synonym world = "trace \<Rightarrow> reply"

definition is_request :: "event \<Rightarrow> bool" where
  "is_request e = (case e of Http_get _ _ _ \<Rightarrow> True | Http_post _ _ _ \<Rightarrow> True
                           | Http_put _ _ _ \<Rightarrow> True | _ \<Rightarrow> False)"

definition requests_of :: "trace \<Rightarrow> event list" where
  "requests_of tr = filter is_request tr"

definition is_sleep :: "event \<Rightarrow> bool" where
  "is_sleep e = (case e of Sleep _ \<Rightarrow> True | _ \<Rightarrow> False)"

definition send :: "world \<Rightarrow> event \<Rightarrow> trace \<Rightarrow> reply \<times> trace" where
  "send w e tr = (w (tr @ [e]), tr @ [e])"

text \<open>\<open>response.raise_for_status()\<close>: statuses 400 to 599 raise \<open>HTTPError\<close>.\<close>

definition raise_for_status :: "response \<Rightarrow> request_exception option" where
  "raise_for_status r =
     (if 400 \<le> status_code r \<and> status_code r < 600 then Some (HTTPError r) else None)"


text \<open>How a function call ends: it returns, the process exits, or an exception escapes.\<close>

datatype 'a outcome = Returns 'a | Exits nat | Raises py_exception

section \<open>Configuration\<close>

text \<open>
  The module-level constants read from the environment. Each script exits with code 1
  at import time when a required variable is missing or empty, so the functions below
  only ever run with the configuration present.
\<close>

record config =
  ACCESS_TOKEN :: string
  INSTAGRAM_ACCOUNT_ID :: string
  GITHUB_TOKEN :: string
  GITHUB_REPO :: string
  GITHUB_BRANCH :: string

definition BASE_URL :: string where
  "BASE_URL = ''https://graph.facebook.com/v19.0''"

definition MEDIA_UPLOAD_URL :: "config \<Rightarrow> fstring" where
  "MEDIA_UPLOAD_URL c = [T (BASE_URL @ ''/'' @ INSTAGRAM_ACCOUNT_ID c @ ''/media'')]"


definition STATUS_URL :: "json \<Rightarrow> fstring" where
  "STATUS_URL container_id = [T (BASE_URL @ ''/''), V container_id]"

section \<open>The status poll\<close>

subsection \<open>post\_story.py\<close>

text \<open>
  \<open>check_media_status(container_id)\<close> calls itself after each \<open>IN_PROGRESS\<close>
  answer, with no bound of its own. The first argument of the model is the number of
  calls still allowed; \<open>None\<close> means that this number did not suffice for the function
  to return.
\<close>

definition status_request :: "config \<Rightarrow> json \<Rightarrow> event" where
  "status_request c container_id =
     Http_get (STATUS_URL container_id) [(''access_token'', JStr (ACCESS_TOKEN c))] []"

primrec check_media_status :: "nat \<Rightarrow> world \<Rightarrow> config \<Rightarrow> json \<Rightarrow> trace \<Rightarrow> (bool \<times> trace) option" where
  "check_media_status 0 w c container_id tr = None"
| "check_media_status (Suc n) w c container_id tr =
     (let tr = tr @ [Print [T ''Step 1.5: Checking media status...'']];
          (rep, tr) = send w (status_request c container_id) tr
      in case rep of
           Raises_request e \<Rightarrow>
             Some (False, tr @ [Print [T ''Error checking media status: '', Exc_request e]])
         | Responds response \<Rightarrow>
             (case raise_for_status response of
                Some e \<Rightarrow>
                  Some (False, tr @ [Print [T ''Error checking media status: '', Exc_request e]])
              | None \<Rightarrow>
                  (let result = resp_json response;
                       status = map_of result ''status_code''
                   in if status = Some (JStr ''FINISHED'') then
                        Some (True, tr @ [Print [T ''Media is ready for publishing.'']])
                      else if status = Some (JStr ''IN_PROGRESS'') then
                        check_media_status n w c container_id
                          (tr @ [Print [T ''Media is still processing. Waiting...''], Sleep 5])
                      else if status = Some (JStr ''FAILED'') then
                        Some (False, tr @ [Print [T ''Media processing failed: '', V (JObj result)]])
                      else
                        Some (False, tr @ [Print [T ''Unknown status: '', V (JObj result)]]))))"

subsection \<open>upload\_and\_post\_story.py\<close>

text \<open>
  The second script's \<open>check_media_status(container_id, media_type)\<close>.
  \<open>result.get('status_code')\<close> is \<open>None\<close> when the key is missing and when its
  value is JSON \<open>null\<close>.
\<close>

definition status_request2 :: "config \<Rightarrow> json \<Rightarrow> event" where
  "status_request2 c container_id =
     Http_get (STATUS_URL container_id)
       [(''access_token'', JStr (ACCESS_TOKEN c)), (''fields'', JStr ''id,status_code'')] []"

definition is_None :: "json option \<Rightarrow> bool" where
  "is_None v = (v = None \<or> v = Some JNull)"

primrec check_media_status2 ::
  "nat \<Rightarrow> world \<Rightarrow> config \<Rightarrow> json \<Rightarrow> string \<Rightarrow> trace \<Rightarrow> (bool \<times> trace) option" where
  "check_media_status2 0 w c container_id media_type tr = None"
| "check_media_status2 (Suc n) w c container_id media_type tr =
     (let tr = tr @ [Print [T ''Step 2.5: Checking media status...'']];
          (rep, tr) = send w (status_request2 c container_id) tr
      in case rep of
           Raises_request e \<Rightarrow>
             Some (False, tr @ [Print [T ''Error checking media status: '', Exc_request e]])
         | Responds response \<Rightarrow>
             (case raise_for_status response of
                Some e \<Rightarrow>
                  Some (False, tr @ [Print [T ''Error checking media status: '', Exc_request e]])
              | None \<Rightarrow>
                  (let result = resp_json response;
                       status = map_of result ''status_code''
                   in if is_None status \<and> media_type = ''IMAGE'' then
                        Some (True, tr @ [Print [T
                          ''Media is ready for publishing (Stories don't require status check).'']])
                      else if status = Some (JStr ''FINISHED'') then
                        Some (True, tr @ [Print [T ''Media is ready for publishing.'']])
                      else if status = Some (JStr ''IN_PROGRESS'') then
                        check_media_status2 n w c container_id media_type
                          (tr @ [Print [T ''Media is still processing. Waiting...''], Sleep 5])
                      else if status = Some (JStr ''FAILED'') then
                        Some (False, tr @ [Print [T ''Media processing failed: '', V (JObj result)]])
                      else
                        (let tr = tr @ [Print [T ''Unknown status: '', V (JObj result)]]
                         in if map_of result ''id'' \<noteq> None then
                              Some (True, tr @ [Print [T ''Proceeding with publication...'']])
                            else Some (False, tr)))))"


section \<open>Container creation and promotion\<close>

text \<open>A single quote and a line feed, for the message literals that hold them.\<close>

definition apostrophe :: string where
  "apostrophe = [CHR 0x27]"


subsection \<open>post\_story.py\<close>

text \<open>The request payload of \<open>upload_media\<close>: lines 62 to 73.\<close>

definition upload_media_data :: "json \<Rightarrow> string \<Rightarrow> dict" where
  "upload_media_data media_url media_type =
     (let data = [(''media_type'', JStr media_type), (''media_url'', media_url)]
      in if media_type = ''IMAGE'' then
           AList.update ''is_share_to_story'' (JBool True) data
         else if media_type = ''VIDEO'' then
           AList.update ''is_share_to_story'' (JBool True)
             (AList.update ''media_type'' (JStr ''REELS'')
               (AList.update ''video_url'' media_url data))
         else data)"

definition upload_media :: "world \<Rightarrow> config \<Rightarrow> json \<Rightarrow> string \<Rightarrow> trace \<Rightarrow> json \<times> trace" where
  "upload_media w c media_url media_type tr =
     (let tr = tr @ [Print [T ''Step 1: Uploading media...'']];
          data = upload_media_data media_url media_type;
          (rep, tr) = send w (Http_post (MEDIA_UPLOAD_URL c)
                                [(''access_token'', JStr (ACCESS_TOKEN c))] data) tr
      in case rep of
           Raises_request e \<Rightarrow>
             (JNull, tr @ [Print [T ''Network error uploading media: '', Exc_request e]])
         | Responds response \<Rightarrow>
             (case raise_for_status response of
                Some e \<Rightarrow>
                  (JNull, tr @ [Print [T ''Network error uploading media: '', Exc_request e]])
              | None \<Rightarrow>
                  (let result = resp_json response
                   in case map_of result ''id'' of
                        Some i \<Rightarrow>
                          (i, tr @ [Print [T ''Media uploaded successfully. Container ID: '', V i]])
                      | None \<Rightarrow>
                          (JNull, tr @ [Print [T ''Error uploading media: '', V (JObj result)]]))))"


subsection \<open>upload\_and\_post\_story.py\<close>

text \<open>The request payload of the second \<open>upload_media\<close>: lines 73 to 81.\<close>

definition upload_media_data2 :: "json \<Rightarrow> string \<Rightarrow> dict" where
  "upload_media_data2 media_url media_type =
     (let data = []
      in if media_type = ''IMAGE'' then
           AList.update ''image_url'' media_url (AList.update ''media_type'' (JStr ''STORIES'') data)
         else if media_type = ''VIDEO'' then
           AList.update ''video_url'' media_url (AList.update ''media_type'' (JStr ''STORIES'') data)
         else data)"

definition upload_media2 :: "world \<Rightarrow> config \<Rightarrow> json \<Rightarrow> string \<Rightarrow> trace \<Rightarrow> json \<times> trace" where
  "upload_media2 w c media_url media_type tr =
     (let tr = tr @ [Print [T ''Step 2: Uploading media to Instagram...'']];
          data = upload_media_data2 media_url media_type;
          (rep, tr) = send w (Http_post (MEDIA_UPLOAD_URL c)
                                [(''access_token'', JStr (ACCESS_TOKEN c))] data) tr
      in case rep of
           Raises_request e \<Rightarrow>
             (JNull, tr @ [Print [T ''Network error uploading media: '', Exc_request e]])
         | Responds response \<Rightarrow>
             (let result = resp_json response
              in if status_code response \<noteq> 200 then
                   (JNull, tr @ [Print [T ''Instagram API Error ('', N (status_code response), T ''):''],
                                 Print [T ''   Response: '', V (JObj result)]])
                 else case map_of result ''id'' of
                        Some i \<Rightarrow>
                          (i, tr @ [Print [T ''Media uploaded successfully. Container ID: '', V i]])
                      | None \<Rightarrow>
                          (JNull, tr @ [Print [T ''Error uploading media: '', V (JObj result)]])))"


section \<open>Credential exchange\<close>




section \<open>Content hosting upload\<close>

text \<open>
  The local file system as \<open>os.path\<close> sees it: a path names nothing, a directory (or
  another thing that is not a regular file), or a regular file with its bytes. Files are
  taken to be readable, and \<open>os.path.getsize\<close> of a regular file is the number of its
  bytes.
\<close>

datatype fs_entry = File "byte list" | Directory

type_synonym filesystem = "string \<Rightarrow> fs_entry option"

definition path_exists :: "filesystem \<Rightarrow> string \<Rightarrow> bool" where
  "path_exists fs p = (fs p \<noteq> None)"

definition path_isfile :: "filesystem \<Rightarrow> string \<Rightarrow> bool" where
  "path_isfile fs p = (case fs p of Some (File content) \<Rightarrow> True | _ \<Rightarrow> False)"

definition read_file :: "filesystem \<Rightarrow> string \<Rightarrow> byte list" where
  "read_file fs p = (case fs p of Some (File content) \<Rightarrow> content | _ \<Rightarrow> [])"

definition path_getsize :: "filesystem \<Rightarrow> string \<Rightarrow> nat" where
  "path_getsize fs p = length (read_file fs p)"

definition path_basename :: "string \<Rightarrow> string" where
  "path_basename p = rev (takeWhile (\<lambda>ch. ch \<noteq> CHR ''/'') (rev p))"

text \<open>\<open>base64.b64encode(...).decode('utf-8')\<close>: the standard alphabet, padded.\<close>

definition b64_alphabet :: string where
  "b64_alphabet = ''ABCDEFGHIJKLMNOPQRSTUVWXYZabcdefghijklmnopqrstuvwxyz0123456789+/''"

definition b64_char :: "nat \<Rightarrow> char" where
  "b64_char i = b64_alphabet ! (i mod 64)"

fun b64encode :: "byte list \<Rightarrow> string" where
  "b64encode [] = []"
| "b64encode [a] =
     (let x = unat a
      in [b64_char (x div 4), b64_char ((x mod 4) * 16), CHR ''='', CHR ''=''])"
| "b64encode [a, b] =
     (let x = unat a; y = unat b
      in [b64_char (x div 4), b64_char ((x mod 4) * 16 + y div 16),
          b64_char ((y mod 16) * 4), CHR ''=''])"
| "b64encode (a # b # c # rest) =
     (let x = unat a; y = unat b; z = unat c
      in [b64_char (x div 4), b64_char ((x mod 4) * 16 + y div 16),
          b64_char ((y mod 16) * 4 + z div 64), b64_char (z mod 64)] @ b64encode rest)"

definition api_url :: "config \<Rightarrow> string \<Rightarrow> fstring" where
  "api_url c file_path_in_repo =
     [T (''https://api.github.com/repos/'' @ GITHUB_REPO c @ ''/contents/'' @ file_path_in_repo)]"

definition github_headers :: "config \<Rightarrow> dict" where
  "github_headers c =
     [(''Authorization'', JStr (''token '' @ GITHUB_TOKEN c)),
      (''Accept'', JStr ''application/vnd.github.v3+json''),
      (''Content-Type'', JStr ''application/json'')]"

text \<open>
  \<open>upload_to_github(local_file_path)\<close>. Every exception raised inside its \<open>try\<close>
  block ends in \<open>sys.exit(1)\<close>; \<open>sys.exit\<close> itself raises \<open>SystemExit\<close>, which
  \<open>except Exception\<close> does not catch. Subscripting a missing key raises \<open>KeyError\<close>,
  subscripting a value that is not an object raises \<open>TypeError\<close>.
\<close>

definition request_failed :: "request_exception \<Rightarrow> trace \<Rightarrow> json outcome \<times> trace" where
  "request_failed e tr =
     (Exits 1, tr @ [Print_stderr [T
        ''Error: GitHub API request failed. Check your token and repo details.''],
        Print_stderr [T ''Details: '', Exc_request e]])"

definition unexpected_error :: "py_exception \<Rightarrow> trace \<Rightarrow> json outcome \<times> trace" where
  "unexpected_error e tr = (Exits 1, tr @ [Print_stderr [T ''Unexpected error: '', Exc e]])"

text \<open>Lines 95 to 99: the request body before the probe.\<close>

definition request_body :: "config \<Rightarrow> string \<Rightarrow> string \<Rightarrow> dict" where
  "request_body c file_name encoded_content =
     [(''message'', JStr (''Upload '' @ file_name @ '' via Album 3 Instagram automation'')),
      (''content'', JStr encoded_content),
      (''branch'', JStr (GITHUB_BRANCH c))]"

text \<open>Lines 103 to 107: what the probe's answer does to the request body.\<close>

definition existing_file :: "string \<Rightarrow> dict \<Rightarrow> response \<Rightarrow> py_exception + dict" where
  "existing_file file_name data response =
     (if status_code response = 200 then
        (case map_of (resp_json response) ''sha'' of
           None \<Rightarrow> Inl (KeyError ''sha'')
         | Some sha \<Rightarrow>
             Inr (AList.update ''message''
                    (JStr (''Update '' @ file_name @ '' via Album 3 Instagram automation''))
                    (AList.update ''sha'' sha data)))
      else Inr data)"

text \<open>Lines 109 to 119: the PUT and its answer.\<close>

definition put_file :: "world \<Rightarrow> fstring \<Rightarrow> dict \<Rightarrow> dict \<Rightarrow> trace \<Rightarrow> json outcome \<times> trace" where
  "put_file w url headers data tr =
     (let (rep, tr) = send w (Http_put url headers data) tr
      in case rep of
           Raises_request e \<Rightarrow> request_failed e tr
         | Responds response \<Rightarrow>
             (if status_code response \<in> {200, 201} then
                (case map_of (resp_json response) ''content'' of
                   None \<Rightarrow> unexpected_error (KeyError ''content'') tr
                 | Some (JObj content) \<Rightarrow>
                     (case map_of content ''download_url'' of
                        None \<Rightarrow> unexpected_error (KeyError ''download_url'') tr
                      | Some raw_url \<Rightarrow>
                          (Returns raw_url,
                           tr @ [Print_stderr [T ''-> File uploaded successfully.'']]))
                 | Some other \<Rightarrow> unexpected_error TypeError tr)
              else
                (Exits 1, tr @ [Print_stderr [T ''Error uploading to GitHub: '',
                                  N (status_code response), T '' - '',
                                  T (resp_text response)]])))"

definition upload_to_github ::
  "world \<Rightarrow> config \<Rightarrow> filesystem \<Rightarrow> string \<Rightarrow> trace \<Rightarrow> json outcome \<times> trace" where
  "upload_to_github w c fs local_file_path tr =
     (if \<not> path_exists fs local_file_path then
        (Exits 1, tr @ [Print_stderr [T (''Error: File not found at '' @ apostrophe),
                                      T local_file_path, T apostrophe]])
      else if \<not> path_isfile fs local_file_path then
        (Exits 1, tr @ [Print_stderr [T (''Error: '' @ apostrophe), T local_file_path,
                                      T (apostrophe @ '' is not a file'')]])
      else
        (let file_size = path_getsize fs local_file_path
         in if file_size > 100 * 1024 * 1024 then
              (Exits 1, tr @ [Print_stderr [T ''Error: File size ('',
                                Fixed 1 (of_nat file_size / 1024 / 1024),
                                T ''MB) exceeds GitHub's 100MB limit'']])
            else
              (let file_name = path_basename local_file_path;
                   file_path_in_repo = ''media/'' @ file_name;
                   tr = tr @ [Print_stderr [T (''-> Uploading '' @ apostrophe), T file_name,
                                T (apostrophe @ '' (''), Fixed 1 (of_nat file_size / 1024 / 1024),
                                T ''MB) to GitHub...'']];
                   file_content = read_file fs local_file_path;
                   encoded_content = b64encode file_content;
                   url = api_url c file_path_in_repo;
                   headers = github_headers c;
                   data = request_body c file_name encoded_content;
                   (rep, tr) = send w (Http_get url [] headers) tr
               in case rep of
                    Raises_request e \<Rightarrow> request_failed e tr
                  | Responds response \<Rightarrow>
                      (case existing_file file_name data response of
                         Inl e \<Rightarrow> unexpected_error e tr
                       | Inr data \<Rightarrow> put_file w url headers data tr))))"

text \<open>The JSON bodies of the PUT requests of a trace, in order.\<close>

definition put_bodies :: "trace \<Rightarrow> dict list" where
  "put_bodies tr = concat (map (\<lambda>e. case e of Http_put u h j \<Rightarrow> [j] | _ \<Rightarrow> []) tr)"

text \<open>The revision token carried by each PUT request of a trace (none when omitted).\<close>

definition put_sha :: "trace \<Rightarrow> json option list" where
  "put_sha tr = map (\<lambda>j. map_of j ''sha'') (put_bodies tr)"

text \<open>
  The probe: the trace up to and including the GET for the target path, and the reply
  the world gives to it.
\<close>

definition probe_request :: "config \<Rightarrow> string \<Rightarrow> event" where
  "probe_request c local_file_path =
     Http_get (api_url c (''media/'' @ path_basename local_file_path)) [] (github_headers c)"

definition probe_trace :: "config \<Rightarrow> filesystem \<Rightarrow> string \<Rightarrow> trace \<Rightarrow> trace" where
  "probe_trace c fs local_file_path tr =
     tr @ [Print_stderr [T (''-> Uploading '' @ apostrophe), T (path_basename local_file_path),
             T (apostrophe @ '' (''),
             Fixed 1 (of_nat (path_getsize fs local_file_path) / 1024 / 1024),
             T ''MB) to GitHub...''],
           probe_request c local_file_path]"

definition probe_reply :: "world \<Rightarrow> config \<Rightarrow> filesystem \<Rightarrow> string \<Rightarrow> trace \<Rightarrow> reply" where
  "probe_reply w c fs local_file_path tr = w (probe_trace c fs local_file_path tr)"

section \<open>The entry scripts\<close>






section \<open>Predicates and concrete runs for the properties\<close>

subsection \<open>What a poll response carries\<close>

text \<open>
  The first reply a call of the poll function gets: the world's answer to the status
  request, made right after the call's opening message.
\<close>

definition poll_reply :: "world \<Rightarrow> config \<Rightarrow> json \<Rightarrow> trace \<Rightarrow> reply" where
  "poll_reply w c container_id tr =
     w (tr @ [Print [T ''Step 1.5: Checking media status...''], status_request c container_id])"

definition poll_reply2 :: "world \<Rightarrow> config \<Rightarrow> json \<Rightarrow> trace \<Rightarrow> reply" where
  "poll_reply2 w c container_id tr =
     w (tr @ [Print [T ''Step 2.5: Checking media status...''], status_request2 c container_id])"

text \<open>
  The JSON object the poll function gets to inspect: none when the request raised or
  \<open>raise_for_status\<close> rejected the HTTP status.
\<close>

definition polled :: "reply \<Rightarrow> dict option" where
  "polled rep =
     (case rep of
        Raises_request e \<Rightarrow> None
      | Responds r \<Rightarrow> (if raise_for_status r = None then Some (resp_json r) else None))"

definition carries_status :: "reply \<Rightarrow> string \<Rightarrow> bool" where
  "carries_status rep s =
     (case polled rep of None \<Rightarrow> False | Some d \<Rightarrow> map_of d ''status_code'' = Some (JStr s))"

text \<open>A status that is none of the three known tags, missing and \<open>null\<close> included.\<close>

definition unrecognized :: "dict \<Rightarrow> bool" where
  "unrecognized d =
     (map_of d ''status_code'' \<noteq> Some (JStr ''FINISHED'') \<and>
      map_of d ''status_code'' \<noteq> Some (JStr ''IN_PROGRESS'') \<and>
      map_of d ''status_code'' \<noteq> Some (JStr ''FAILED''))"

text \<open>
  \<open>stops res tr b req\<close>: the call returned \<open>b\<close>, and the events it added to \<open>tr\<close>
  hold the single request \<open>req\<close> and no sleep.
\<close>

definition stops :: "(bool \<times> trace) option \<Rightarrow> trace \<Rightarrow> bool \<Rightarrow> event \<Rightarrow> bool" where
  "stops res tr b req =
     (case res of
        None \<Rightarrow> False
      | Some (b', tr') \<Rightarrow>
          b' = b \<and> take (length tr) tr' = tr \<and>
          requests_of (drop (length tr) tr') = [req] \<and>
          filter is_sleep (drop (length tr) tr') = [])"

text \<open>Worlds for concrete runs: one that always gives the same reply, and one that
  answers the k-th request with the k-th reply of a list (and refuses any further one).\<close>

definition always :: "reply \<Rightarrow> world" where
  "always rep = (\<lambda>h. rep)"

definition scripted :: "reply list \<Rightarrow> world" where
  "scripted reps =
     (\<lambda>h. let k = length (requests_of h)
          in if 0 < k \<and> k \<le> length reps then reps ! (k - 1)
             else Raises_request (Transport_error ''connection refused''))"

definition ok_json :: "dict \<Rightarrow> reply" where
  "ok_json d = Responds \<lparr>status_code = 200, resp_text = [], resp_json = d\<rparr>"

definition cfg0 :: config where
  "cfg0 = \<lparr>ACCESS_TOKEN = ''tok'', INSTAGRAM_ACCOUNT_ID = ''42'', GITHUB_TOKEN = ''ght'',
           GITHUB_REPO = ''u/r'', GITHUB_BRANCH = ''master''\<rparr>"




definition finished_reply :: reply where
  "finished_reply = ok_json [(''status_code'', JStr ''FINISHED''), (''id'', JStr ''17895'')]"

definition failed_reply :: reply where
  "failed_reply = ok_json [(''status_code'', JStr ''FAILED''), (''id'', JStr ''17895'')]"

definition id_only_reply :: reply where
  "id_only_reply = ok_json [(''id'', JStr ''17895'')]"

definition empty_reply :: reply where
  "empty_reply = ok_json []"


text \<open>A file system that holds one regular file.\<close>

definition one_file :: "string \<Rightarrow> byte list \<Rightarrow> filesystem" where
  "one_file p content = [p \<mapsto> File content]"

definition no_files :: filesystem where
  "no_files = Map.empty"





definition found :: response where
  "found = \<lparr>status_code = 200, resp_text = [],
            resp_json = [(''name'', JStr ''photo.png''), (''sha'', JStr ''abc123'')]\<rparr>"

definition found_no_sha :: response where
  "found_no_sha = \<lparr>status_code = 200, resp_text = [],
                   resp_json = [(''name'', JStr ''photo.png'')]\<rparr>"

definition not_found :: response where
  "not_found = \<lparr>status_code = 404, resp_text = ''Not Found'',
                resp_json = [(''message'', JStr ''Not Found'')]\<rparr>"

definition created :: response where
  "created = \<lparr>status_code = 201, resp_text = [],
              resp_json = [(''content'',
                JObj [(''download_url'', JStr ''https://host/media/photo.png'')])]\<rparr>"

definition photo :: filesystem where
  "photo = one_file ''photo.png'' [137, 80, 78, 71]"






section \<open>Properties of the status poll\<close>

lemma requests_of_append [simp]: "requests_of (xs @ ys) = requests_of xs @ requests_of ys"
  by (simp add: requests_of_def)

lemma requests_of_simps [simp]:
  "requests_of [] = []"
  "requests_of (Http_get u p h # tr) = Http_get u p h # requests_of tr"
  "requests_of (Http_post u p d # tr) = Http_post u p d # requests_of tr"
  "requests_of (Http_put u h j # tr) = Http_put u h j # requests_of tr"
  "requests_of (Sleep k # tr) = requests_of tr"
  "requests_of (Print m # tr) = requests_of tr"
  "requests_of (Print_stderr m # tr) = requests_of tr"
  by (simp_all add: requests_of_def is_request_def)

lemma is_sleep_simps [simp]:
  "is_sleep (Http_get u p h) = False"
  "is_sleep (Http_post u p d) = False"
  "is_sleep (Http_put u h j) = False"
  "is_sleep (Sleep k) = True"
  "is_sleep (Print m) = False"
  "is_sleep (Print_stderr m) = False"
  by (simp_all add: is_sleep_def)

lemma carries_statusD:
  "carries_status rep s \<Longrightarrow>
     \<exists>r. rep = Responds r \<and> raise_for_status r = None \<and>
         map_of (resp_json r) ''status_code'' = Some (JStr s)"
  by (auto simp: carries_status_def polled_def split: reply.splits option.splits if_splits)

text \<open>
  C4. When the poll response carries FINISHED the function returns True, when it carries
  FAILED it returns False; in both scripts any number of allowed calls from one on is
  enough, and the events of the call hold the poll request alone and no sleep.
\<close>

theorem poll_finished_failed_stops:
  "(carries_status (poll_reply w c cid tr) ''FINISHED'' \<longrightarrow>
      stops (check_media_status (Suc n) w c cid tr) tr True (status_request c cid)) \<and>
   (carries_status (poll_reply w c cid tr) ''FAILED'' \<longrightarrow>
      stops (check_media_status (Suc n) w c cid tr) tr False (status_request c cid)) \<and>
   (carries_status (poll_reply2 w c cid tr) ''FINISHED'' \<longrightarrow>
      stops (check_media_status2 (Suc n) w c cid mt tr) tr True (status_request2 c cid)) \<and>
   (carries_status (poll_reply2 w c cid tr) ''FAILED'' \<longrightarrow>
      stops (check_media_status2 (Suc n) w c cid mt tr) tr False (status_request2 c cid))"
proof (intro conjI impI)
  assume "carries_status (poll_reply w c cid tr) ''FINISHED''"
  from carries_statusD [OF this]
  show "stops (check_media_status (Suc n) w c cid tr) tr True (status_request c cid)"
    by (auto simp: poll_reply_def send_def stops_def status_request_def)
next
  assume "carries_status (poll_reply w c cid tr) ''FAILED''"
  from carries_statusD [OF this]
  show "stops (check_media_status (Suc n) w c cid tr) tr False (status_request c cid)"
    by (auto simp: poll_reply_def send_def stops_def status_request_def)
next
  assume "carries_status (poll_reply2 w c cid tr) ''FINISHED''"
  from carries_statusD [OF this]
  show "stops (check_media_status2 (Suc n) w c cid mt tr) tr True (status_request2 c cid)"
    by (auto simp: poll_reply2_def send_def stops_def status_request2_def is_None_def)
next
  assume "carries_status (poll_reply2 w c cid tr) ''FAILED''"
  from carries_statusD [OF this]
  show "stops (check_media_status2 (Suc n) w c cid mt tr) tr False (status_request2 c cid)"
    by (auto simp: poll_reply2_def send_def stops_def status_request2_def is_None_def)
qed

theorem poll_finished_failed_stops_witness:
  "carries_status (poll_reply (always finished_reply) cfg0 (JStr ''17895'') []) ''FINISHED'' \<and>
   stops (check_media_status (Suc 0) (always finished_reply) cfg0 (JStr ''17895'') []) [] True
     (status_request cfg0 (JStr ''17895'')) \<and>
   carries_status (poll_reply (always failed_reply) cfg0 (JStr ''17895'') []) ''FAILED'' \<and>
   stops (check_media_status (Suc 0) (always failed_reply) cfg0 (JStr ''17895'') []) [] False
     (status_request cfg0 (JStr ''17895'')) \<and>
   carries_status (poll_reply2 (always finished_reply) cfg0 (JStr ''17895'') []) ''FINISHED'' \<and>
   stops (check_media_status2 (Suc 0) (always finished_reply) cfg0 (JStr ''17895'') ''IMAGE'' [])
     [] True (status_request2 cfg0 (JStr ''17895'')) \<and>
   carries_status (poll_reply2 (always failed_reply) cfg0 (JStr ''17895'') []) ''FAILED'' \<and>
   stops (check_media_status2 (Suc 0) (always failed_reply) cfg0 (JStr ''17895'') ''VIDEO'' [])
     [] False (status_request2 cfg0 (JStr ''17895''))"
  using poll_finished_failed_stops [of "always finished_reply" cfg0 "JStr ''17895''" "[]" 0 "''IMAGE''"]
        poll_finished_failed_stops [of "always failed_reply" cfg0 "JStr ''17895''" "[]" 0 "''VIDEO''"]
  by (simp add: carries_status_def polled_def poll_reply_def poll_reply2_def always_def
        finished_reply_def failed_reply_def ok_json_def raise_for_status_def)











text \<open>
  C5, as the code has it. On a successful response whose status is none of FINISHED,
  IN_PROGRESS and FAILED, post\_story.py returns False. upload\_and\_post\_story.py
  returns True exactly when the response has an "id" field or the status is absent
  (missing or null) and the media kind is IMAGE. The two disagree on a response that
  holds an "id" and no status.
\<close>

theorem unknown_status_disagreement:
  "(polled (poll_reply w c cid tr) = Some d \<and> unrecognized d \<longrightarrow>
      stops (check_media_status (Suc n) w c cid tr) tr False (status_request c cid)) \<and>
   (polled (poll_reply2 w c cid tr) = Some d2 \<and> unrecognized d2 \<longrightarrow>
      stops (check_media_status2 (Suc n) w c cid mt tr) tr
        (map_of d2 ''id'' \<noteq> None \<or> (is_None (map_of d2 ''status_code'') \<and> mt = ''IMAGE''))
        (status_request2 c cid)) \<and>
   stops (check_media_status (Suc 0) (always id_only_reply) cfg0 (JStr ''17895'') []) []
     False (status_request cfg0 (JStr ''17895'')) \<and>
   stops (check_media_status2 (Suc 0) (always id_only_reply) cfg0 (JStr ''17895'') ''VIDEO'' []) []
     True (status_request2 cfg0 (JStr ''17895''))"
proof (intro conjI impI)
  assume "polled (poll_reply w c cid tr) = Some d \<and> unrecognized d"
  then show "stops (check_media_status (Suc n) w c cid tr) tr False (status_request c cid)"
    by (auto simp: polled_def poll_reply_def unrecognized_def send_def stops_def
          status_request_def split: reply.splits if_splits)
next
  assume "polled (poll_reply2 w c cid tr) = Some d2 \<and> unrecognized d2"
  then show "stops (check_media_status2 (Suc n) w c cid mt tr) tr
        (map_of d2 ''id'' \<noteq> None \<or> (is_None (map_of d2 ''status_code'') \<and> mt = ''IMAGE''))
        (status_request2 c cid)"
    by (auto simp: polled_def poll_reply2_def unrecognized_def send_def stops_def
          status_request2_def Let_def is_None_def split: reply.splits if_splits)
next
  show "stops (check_media_status (Suc 0) (always id_only_reply) cfg0 (JStr ''17895'') []) []
     False (status_request cfg0 (JStr ''17895''))"
    by (simp add: always_def id_only_reply_def ok_json_def raise_for_status_def send_def
          stops_def status_request_def)
next
  show "stops (check_media_status2 (Suc 0) (always id_only_reply) cfg0 (JStr ''17895'') ''VIDEO'' [])
     [] True (status_request2 cfg0 (JStr ''17895''))"
    by (simp add: always_def id_only_reply_def ok_json_def raise_for_status_def send_def
          stops_def status_request2_def is_None_def)
qed

theorem unknown_status_disagreement_witness:
  "polled (poll_reply (always id_only_reply) cfg0 (JStr ''17895'') []) =
     Some [(''id'', JStr ''17895'')] \<and>
   unrecognized [(''id'', JStr ''17895'')] \<and>
   stops (check_media_status (Suc 0) (always id_only_reply) cfg0 (JStr ''17895'') []) []
     False (status_request cfg0 (JStr ''17895'')) \<and>
   polled (poll_reply2 (always empty_reply) cfg0 (JStr ''17895'') []) = Some [] \<and>
   unrecognized [] \<and>
   stops (check_media_status2 (Suc 0) (always empty_reply) cfg0 (JStr ''17895'') ''VIDEO'' []) []
     False (status_request2 cfg0 (JStr ''17895''))"
  using unknown_status_disagreement
    [of "always id_only_reply" cfg0 "JStr ''17895''" "[]" "[(''id'', JStr ''17895'')]" 0]
    unknown_status_disagreement
    [of "always empty_reply" cfg0 "JStr ''17895''" "[]" _ 0 "[]" "''VIDEO''"]
  by (simp add: polled_def poll_reply_def poll_reply2_def always_def id_only_reply_def
        empty_reply_def ok_json_def raise_for_status_def unrecognized_def is_None_def)

text \<open>
  The claim C5 as stated fails: an empty JSON object has no status and no "id", yet for
  media kind IMAGE the second script's poll returns True.
\<close>

theorem unknown_status_image_without_id_counterexample:
  "polled (poll_reply2 (always empty_reply) cfg0 (JStr ''17895'') []) = Some [] \<and>
   unrecognized [] \<and> map_of ([] :: dict) ''id'' = None \<and>
   check_media_status2 (Suc 0) (always empty_reply) cfg0 (JStr ''17895'') ''IMAGE'' [] =
     Some (True,
       [Print [T ''Step 2.5: Checking media status...''], status_request2 cfg0 (JStr ''17895''),
        Print [T ''Media is ready for publishing (Stories don't require status check).'']])"
  by (simp add: polled_def poll_reply2_def always_def empty_reply_def ok_json_def
        raise_for_status_def unrecognized_def is_None_def send_def status_request2_def)

text \<open>
  C6, as the code has it. With media kind IMAGE the second script still issues the poll
  request. When the response reports no status (the field is missing or null) the
  function returns True, with that one request and no sleep. A reported status is not
  ignored: unless it is IN_PROGRESS, the call gives what it gives for any other media
  kind.
\<close>

theorem image_without_status_is_ready:
  "(polled (poll_reply2 w c cid tr) = Some d \<and> is_None (map_of d ''status_code'') \<longrightarrow>
      stops (check_media_status2 (Suc n) w c cid ''IMAGE'' tr) tr True (status_request2 c cid)) \<and>
   (polled (poll_reply2 w c cid tr) = Some d \<and> \<not> is_None (map_of d ''status_code'') \<and>
    map_of d ''status_code'' \<noteq> Some (JStr ''IN_PROGRESS'') \<longrightarrow>
      check_media_status2 (Suc n) w c cid ''IMAGE'' tr = check_media_status2 (Suc n) w c cid mt tr)"
  by (auto simp: polled_def poll_reply2_def send_def stops_def status_request2_def Let_def
        split: reply.splits if_splits)

theorem image_without_status_is_ready_witness:
  "polled (poll_reply2 (always id_only_reply) cfg0 (JStr ''17895'') []) =
     Some [(''id'', JStr ''17895'')] \<and>
   is_None (map_of [(''id'', JStr ''17895'')] ''status_code'') \<and>
   stops (check_media_status2 (Suc 0) (always id_only_reply) cfg0 (JStr ''17895'') ''IMAGE'' [])
     [] True (status_request2 cfg0 (JStr ''17895'')) \<and>
   polled (poll_reply2 (always failed_reply) cfg0 (JStr ''17895'') []) =
     Some [(''status_code'', JStr ''FAILED''), (''id'', JStr ''17895'')] \<and>
   \<not> is_None (map_of [(''status_code'', JStr ''FAILED''), (''id'', JStr ''17895'')] ''status_code'') \<and>
   check_media_status2 (Suc 0) (always failed_reply) cfg0 (JStr ''17895'') ''IMAGE'' [] =
     check_media_status2 (Suc 0) (always failed_reply) cfg0 (JStr ''17895'') ''VIDEO'' []"
  using image_without_status_is_ready
    [of "always id_only_reply" cfg0 "JStr ''17895''" "[]" "[(''id'', JStr ''17895'')]" 0]
    image_without_status_is_ready
    [of "always failed_reply" cfg0 "JStr ''17895''" "[]"
        "[(''status_code'', JStr ''FAILED''), (''id'', JStr ''17895'')]" 0 "''VIDEO''"]
  by (simp add: polled_def poll_reply2_def always_def id_only_reply_def failed_reply_def
        ok_json_def raise_for_status_def is_None_def)

text \<open>
  The claim C6 as stated fails: for media kind IMAGE a response that reports FAILED makes
  the poll return False.
\<close>

theorem image_failed_status_counterexample:
  "carries_status (poll_reply2 (always failed_reply) cfg0 (JStr ''17895'') []) ''FAILED'' \<and>
   check_media_status2 (Suc 0) (always failed_reply) cfg0 (JStr ''17895'') ''IMAGE'' [] =
     Some (False,
       [Print [T ''Step 2.5: Checking media status...''], status_request2 cfg0 (JStr ''17895''),
        Print [T ''Media processing failed: '',
               V (JObj [(''status_code'', JStr ''FAILED''), (''id'', JStr ''17895'')])]])"
  by (simp add: carries_status_def polled_def poll_reply2_def always_def failed_reply_def
        ok_json_def raise_for_status_def is_None_def send_def status_request2_def)

section \<open>Properties of container creation\<close>

text \<open>
  C7, as the code has it. Either script sends one container-creation request whose body
  is built from the media URL and the tag. In post\_story.py the body for IMAGE holds the
  tag, the URL and the flag is\_share\_to\_story; for VIDEO it holds media\_type REELS, the
  URL twice (media\_url and video\_url) and the flag. In upload\_and\_post\_story.py the
  flag is never sent and both tags send media\_type STORIES: the body holds the URL as
  image\_url for IMAGE and as video\_url for VIDEO.
\<close>

theorem container_creation_body:
  "requests_of (snd (upload_media w c media_url media_type tr)) =
     requests_of tr @
     [Http_post (MEDIA_UPLOAD_URL c) [(''access_token'', JStr (ACCESS_TOKEN c))]
        (upload_media_data media_url media_type)] \<and>
   upload_media_data media_url ''IMAGE'' =
     [(''media_type'', JStr ''IMAGE''), (''media_url'', media_url),
      (''is_share_to_story'', JBool True)] \<and>
   upload_media_data media_url ''VIDEO'' =
     [(''media_type'', JStr ''REELS''), (''media_url'', media_url),
      (''video_url'', media_url), (''is_share_to_story'', JBool True)] \<and>
   requests_of (snd (upload_media2 w c media_url media_type tr)) =
     requests_of tr @
     [Http_post (MEDIA_UPLOAD_URL c) [(''access_token'', JStr (ACCESS_TOKEN c))]
        (upload_media_data2 media_url media_type)] \<and>
   upload_media_data2 media_url ''IMAGE'' =
     [(''media_type'', JStr ''STORIES''), (''image_url'', media_url)] \<and>
   upload_media_data2 media_url ''VIDEO'' =
     [(''media_type'', JStr ''STORIES''), (''video_url'', media_url)]"
proof (intro conjI)
  show "requests_of (snd (upload_media w c media_url media_type tr)) =
     requests_of tr @
     [Http_post (MEDIA_UPLOAD_URL c) [(''access_token'', JStr (ACCESS_TOKEN c))]
        (upload_media_data media_url media_type)]"
    by (simp add: upload_media_def send_def Let_def split: reply.splits option.splits)
  show "requests_of (snd (upload_media2 w c media_url media_type tr)) =
     requests_of tr @
     [Http_post (MEDIA_UPLOAD_URL c) [(''access_token'', JStr (ACCESS_TOKEN c))]
        (upload_media_data2 media_url media_type)]"
    by (simp add: upload_media2_def send_def Let_def split: reply.splits option.splits)
qed (simp_all add: upload_media_data_def upload_media_data2_def)

text \<open>
  The claim C7 as stated fails for the second script: its body for IMAGE has no
  is\_share\_to\_story flag, and the media\_type it sends for VIDEO is the one it sends
  for IMAGE.
\<close>

theorem second_script_sends_no_story_flag_counterexample:
  "requests_of (snd (upload_media2 (always id_only_reply) cfg0
      (JStr ''https://host/media/photo.png'') ''IMAGE'' [])) =
     [Http_post (MEDIA_UPLOAD_URL cfg0) [(''access_token'', JStr ''tok'')]
        [(''media_type'', JStr ''STORIES''),
         (''image_url'', JStr ''https://host/media/photo.png'')]] \<and>
   map_of (upload_media_data2 (JStr ''https://host/media/photo.png'') ''IMAGE'')
     ''is_share_to_story'' = None \<and>
   map_of (upload_media_data2 (JStr ''https://host/media/photo.png'') ''VIDEO'')
     ''is_share_to_story'' = None \<and>
   map_of (upload_media_data2 (JStr ''https://host/media/photo.png'') ''VIDEO'') ''media_type'' =
   map_of (upload_media_data2 (JStr ''https://host/media/photo.png'') ''IMAGE'') ''media_type''"
  by (simp add: upload_media2_def upload_media_data2_def send_def always_def id_only_reply_def
        ok_json_def cfg0_def)

section \<open>Properties of the credential exchange\<close>



section \<open>Properties of the content hosting upload\<close>

lemma put_sha_append [simp]: "put_sha (xs @ ys) = put_sha xs @ put_sha ys"
  by (simp add: put_sha_def put_bodies_def)

lemma put_sha_simps [simp]:
  "put_sha [] = []"
  "put_sha (Http_get u p h # tr) = put_sha tr"
  "put_sha (Http_post u p d # tr) = put_sha tr"
  "put_sha (Http_put u h j # tr) = map_of j ''sha'' # put_sha tr"
  "put_sha (Sleep k # tr) = put_sha tr"
  "put_sha (Print m # tr) = put_sha tr"
  "put_sha (Print_stderr m # tr) = put_sha tr"
  by (simp_all add: put_sha_def put_bodies_def)

lemma path_isfile_exists: "path_isfile fs p \<Longrightarrow> path_exists fs p"
  by (auto simp: path_isfile_def path_exists_def split: option.splits)

lemma put_sha_put_file:
  "put_sha (snd (put_file w url headers data tr)) = put_sha tr @ [map_of data ''sha'']"
  by (simp add: put_file_def send_def request_failed_def unexpected_error_def
        split: reply.splits option.splits json.splits)

lemma requests_of_put_file:
  "requests_of (snd (put_file w url headers data tr)) =
     requests_of tr @ [Http_put url headers data]"
  by (simp add: put_file_def send_def request_failed_def unexpected_error_def
        split: reply.splits option.splits json.splits)

text \<open>
  C1. For a local file that passes the checks: when the probe GET is answered with status
  200 and the answer holds "sha", one PUT is made and its body holds that value as "sha";
  when the probe is answered with any other status, one PUT is made and its body has no
  "sha". (A 200 answer without "sha" raises \<open>KeyError\<close>: no PUT is made and the process
  exits with code 1.)
\<close>

theorem probe_decides_revision_token:
  assumes "path_isfile fs p"
    and "path_getsize fs p \<le> 100 * 1024 * 1024"
    and "probe_reply w c fs p tr = Responds r"
  shows "(status_code r = 200 \<and> map_of (resp_json r) ''sha'' = Some sha \<longrightarrow>
            put_sha (snd (upload_to_github w c fs p tr)) = put_sha tr @ [Some sha]) \<and>
         (status_code r \<noteq> 200 \<longrightarrow>
            put_sha (snd (upload_to_github w c fs p tr)) = put_sha tr @ [None]) \<and>
         (status_code r = 200 \<and> map_of (resp_json r) ''sha'' = None \<longrightarrow>
            put_sha (snd (upload_to_github w c fs p tr)) = put_sha tr \<and>
            fst (upload_to_github w c fs p tr) = Exits 1)"
proof -
  have ex: "path_exists fs p"
    by (rule path_isfile_exists [OF assms(1)])
  have size: "\<not> 100 * 1024 * 1024 < path_getsize fs p"
    using assms(2) by simp
  have probe: "w (tr @ [Print_stderr [T (''-> Uploading '' @ apostrophe), T (path_basename p),
             T (apostrophe @ '' (''), Fixed 1 (of_nat (path_getsize fs p) / 1024 / 1024),
             T ''MB) to GitHub...''],
           Http_get (api_url c (''media/'' @ path_basename p)) [] (github_headers c)]) = Responds r"
    using assms(3) by (simp add: probe_reply_def probe_trace_def probe_request_def)
  have run: "upload_to_github w c fs p tr =
      (case existing_file (path_basename p)
              (request_body c (path_basename p) (b64encode (read_file fs p))) r of
         Inl e \<Rightarrow> unexpected_error e (probe_trace c fs p tr)
       | Inr data \<Rightarrow>
           put_file w (api_url c (''media/'' @ path_basename p)) (github_headers c) data
             (probe_trace c fs p tr))"
    using ex assms(1) size probe
    by (simp add: upload_to_github_def send_def Let_def probe_trace_def probe_request_def
          split: sum.splits)
  have no_sha: "map_of (request_body c n e) ''sha'' = None" for n e
    by (simp add: request_body_def)
  have tr0: "put_sha (probe_trace c fs p tr) = put_sha tr"
    by (simp add: probe_trace_def probe_request_def)
  show ?thesis
    by (simp add: run existing_file_def put_sha_put_file unexpected_error_def tr0 no_sha
          update_conv')
qed

theorem probe_decides_revision_token_witness:
  "path_isfile photo ''photo.png'' \<and>
   path_getsize photo ''photo.png'' \<le> 100 * 1024 * 1024 \<and>
   probe_reply (scripted [Responds found, Responds created]) cfg0 photo ''photo.png'' [] =
     Responds found \<and>
   put_sha (snd (upload_to_github (scripted [Responds found, Responds created]) cfg0 photo
                   ''photo.png'' [])) = [Some (JStr ''abc123'')] \<and>
   probe_reply (scripted [Responds not_found, Responds created]) cfg0 photo ''photo.png'' [] =
     Responds not_found \<and>
   put_sha (snd (upload_to_github (scripted [Responds not_found, Responds created]) cfg0 photo
                   ''photo.png'' [])) = [None] \<and>
   probe_reply (always (Responds found_no_sha)) cfg0 photo ''photo.png'' [] =
     Responds found_no_sha \<and>
   put_sha (snd (upload_to_github (always (Responds found_no_sha)) cfg0 photo
                   ''photo.png'' [])) = [] \<and>
   fst (upload_to_github (always (Responds found_no_sha)) cfg0 photo ''photo.png'' []) = Exits 1"
proof -
  have f: "path_isfile photo ''photo.png''"
    by (simp add: photo_def one_file_def path_isfile_def)
  have s: "path_getsize photo ''photo.png'' \<le> 100 * 1024 * 1024"
    by (simp add: photo_def one_file_def path_getsize_def read_file_def)
  have p1: "probe_reply (scripted [Responds found, Responds created]) cfg0 photo ''photo.png'' []
              = Responds found"
    by (simp add: probe_reply_def probe_trace_def probe_request_def scripted_def)
  have p2: "probe_reply (scripted [Responds not_found, Responds created]) cfg0 photo
              ''photo.png'' [] = Responds not_found"
    by (simp add: probe_reply_def probe_trace_def probe_request_def scripted_def)
  have p3: "probe_reply (always (Responds found_no_sha)) cfg0 photo ''photo.png'' []
              = Responds found_no_sha"
    by (simp add: probe_reply_def always_def)
  show ?thesis
    using f s p1 p2 p3
      probe_decides_revision_token [OF f s p1, of "JStr ''abc123''"]
      probe_decides_revision_token [OF f s p2]
      probe_decides_revision_token [OF f s p3]
    by (simp add: found_def not_found_def found_no_sha_def)
qed

text \<open>
  C2. A path that names nothing, and a regular file of more than 100 * 1024 * 1024 bytes,
  end the upload step with exit code 1 and no request made. A regular file of exactly
  that many bytes passes the size check: the probe GET is the next request.
\<close>

theorem local_checks_before_network:
  "(\<not> path_exists fs p \<longrightarrow>
      fst (upload_to_github w c fs p tr) = Exits 1 \<and>
      requests_of (snd (upload_to_github w c fs p tr)) = requests_of tr) \<and>
   (fs p = Some (File content) \<and> 100 * 1024 * 1024 < length content \<longrightarrow>
      fst (upload_to_github w c fs p tr) = Exits 1 \<and>
      requests_of (snd (upload_to_github w c fs p tr)) = requests_of tr) \<and>
   (fs p = Some (File content) \<and> length content = 100 * 1024 * 1024 \<longrightarrow>
      take (Suc (length (requests_of tr))) (requests_of (snd (upload_to_github w c fs p tr))) =
        requests_of tr @ [probe_request c p])"
proof (intro conjI impI)
  assume "\<not> path_exists fs p"
  then show "fst (upload_to_github w c fs p tr) = Exits 1"
    and "requests_of (snd (upload_to_github w c fs p tr)) = requests_of tr"
    by (simp_all add: upload_to_github_def)
next
  assume a: "fs p = Some (File content) \<and> 100 * 1024 * 1024 < length content"
  then have "path_exists fs p" "path_isfile fs p" "100 * 1024 * 1024 < path_getsize fs p"
    by (simp_all add: path_exists_def path_isfile_def path_getsize_def read_file_def)
  then show "fst (upload_to_github w c fs p tr) = Exits 1"
    and "requests_of (snd (upload_to_github w c fs p tr)) = requests_of tr"
    by (simp_all add: upload_to_github_def)
next
  assume a: "fs p = Some (File content) \<and> length content = 100 * 1024 * 1024"
  then have "path_exists fs p" "path_isfile fs p" "\<not> 100 * 1024 * 1024 < path_getsize fs p"
    by (simp_all add: path_exists_def path_isfile_def path_getsize_def read_file_def)
  then show "take (Suc (length (requests_of tr)))
      (requests_of (snd (upload_to_github w c fs p tr))) = requests_of tr @ [probe_request c p]"
    by (simp add: upload_to_github_def send_def Let_def probe_request_def
          request_failed_def unexpected_error_def requests_of_put_file
          split: reply.splits sum.splits)
qed

theorem local_checks_before_network_witness:
  "\<not> path_exists no_files ''photo.png'' \<and>
   fst (upload_to_github (always (Responds created)) cfg0 no_files ''photo.png'' []) = Exits 1 \<and>
   requests_of (snd (upload_to_github (always (Responds created)) cfg0 no_files
                       ''photo.png'' [])) = [] \<and>
   100 * 1024 * 1024 < length (replicate 104857601 (0 :: byte)) \<and>
   fst (upload_to_github (always (Responds created)) cfg0
          (one_file ''big.mp4'' (replicate 104857601 0)) ''big.mp4'' []) = Exits 1 \<and>
   requests_of (snd (upload_to_github (always (Responds created)) cfg0
          (one_file ''big.mp4'' (replicate 104857601 0)) ''big.mp4'' [])) = [] \<and>
   length (replicate 104857600 (0 :: byte)) = 100 * 1024 * 1024 \<and>
   take (Suc 0) (requests_of (snd (upload_to_github (always (Responds created)) cfg0
          (one_file ''edge.mp4'' (replicate 104857600 0)) ''edge.mp4'' []))) =
     [probe_request cfg0 ''edge.mp4'']"
  using local_checks_before_network
      [of no_files "''photo.png''" "always (Responds created)" cfg0 "[]"]
    local_checks_before_network
      [of "one_file ''big.mp4'' (replicate 104857601 0)" "''big.mp4''"
          "always (Responds created)" cfg0 "[]" "replicate 104857601 0"]
    local_checks_before_network
      [of "one_file ''edge.mp4'' (replicate 104857600 0)" "''edge.mp4''"
          "always (Responds created)" cfg0 "[]" "replicate 104857600 0"]
  by (simp add: no_files_def one_file_def path_exists_def)

section \<open>Properties of the entry scripts\<close>














end
